theory Spec2Isabelle
  imports Main "HOL-Library.Sublist" "HOL-Library.Multiset"
begin

section \<open>Data model (types.ts)\<close>

text \<open>
  The interfaces of the type declarations become records. An optional field
  (\<^verbatim>\<open>f?: T\<close>) is an \<open>option\<close>, a JavaScript \<^verbatim>\<open>number\<close> is an \<open>int\<close> (the values the
  code compares are scores, counts and millisecond time stamps), and an \<open>int option\<close>
  with \<open>None\<close> for NaN where the code can meet NaN, which is in the time value of a date;
  a string is a \<open>string\<close>. Two interfaces may share a field name; the later record then
  carries a suffix: \<open>_p\<close> for \<open>Publication\<close>, \<open>_f\<close> for \<open>PublicationFilters\<close>. The
  field \<^verbatim>\<open>id\<close> of \<open>Trial\<close> is \<open>id_t\<close>.
\<close>

record Trial =
  id_t :: string
  nctId :: string
  title :: string
  status :: string
  phase :: "string list"
  condition :: "string list"
  intervention :: "string list"
  sponsor :: string
  startDate :: "string option"
  primaryCompletionDate :: "string option"
  description :: "string option"
  briefSummary :: "string option"
  molecularTargets :: "string list option"
  lastUpdateDate :: "string option"
  locations :: "int option"
  studyType :: "string option"
  relevanceScore :: "int option"
  relevanceReason :: "string option"
  primaryOutcomes :: "string list option"
  secondaryOutcomes :: "string list option"
  enrollmentCount :: "int option"

record SearchProfile =
  conditions :: "string list"
  interventions :: "string list"
  targets :: "string list"
  synonyms :: "string list"
  suggestedQuery :: string

record TrialFilters =
  statuses :: "string list"
  phases :: "string list"

record PublicationFilters =
  dateFrom :: string
  dateTo :: string
  journal_f :: string
  author_f :: string

record Publication =
  pmid :: string
  title_p :: string
  authors :: "string list"
  journal :: string
  pubDate :: string
  doi :: "string option"
  abstract :: "string option"
  relevanceScore_p :: "int option"
  relevanceReason_p :: "string option"

record TrialGroup =
  groupName :: string
  moaDescription :: string
  trialIds :: "string list"

record PipelinePhase =
  phaseName :: string
  groups :: "TrialGroup list"

record PipelineData =
  pipelinePhases :: "PipelinePhase list"

record MatrixRow =
  label :: string
  rowValues :: "string list"

record ComparisonMatrix =
  headers :: "string list"
  rows :: "MatrixRow list"
  strategicSummary :: "string option"

text \<open>
  The two report payloads below are stored and cleared by the coordinator and never
  inspected by it, so their fields are not spelled out.
\<close>

typedecl DeepTrialMetrics

typedecl PublicationAnalysis

datatype SortOrder = relevance | newest

record SearchState =
  trials :: "Trial list"
  publications :: "Publication list"
  loading :: bool
  error :: "string option"
  query :: string
  filters :: TrialFilters
  pubFilters :: PublicationFilters
  sortOrder :: SortOrder
  profile :: "SearchProfile option"

section \<open>Component state of App.tsx\<close>

datatype ChatContext =
    global
  | trial Trial
  | publication Publication "PublicationAnalysis option"

datatype ChatRole = user | agent

record ChatMessage =
  role :: ChatRole
  text_m :: string

record SelectedPaper =
  paper :: Publication
  analysis :: "PublicationAnalysis option"

text \<open>
  A value thrown by an external call is a string. An element of the array handed to the
  scorer is a trial or a publication.
\<close>

type_synonym exn = string

datatype item = TrialItem Trial | PubItem Publication

text \<open>
  The score mapping is the JavaScript object the scorer resolves to. The merge reads it
  with \<^verbatim>\<open>scoresMap[id]\<close>, tests the value for truthiness and, when it is truthy, reads its
  properties \<^verbatim>\<open>score\<close> and \<^verbatim>\<open>reason\<close>. So a value is \<open>Falsy\<close> (\<^verbatim>\<open>undefined\<close>, \<^verbatim>\<open>null\<close>, 0, the
  empty string, \<^verbatim>\<open>false\<close>, NaN) or \<open>Truthy\<close> with what those two properties hold, \<open>None\<close> for
  \<^verbatim>\<open>undefined\<close>. An object has its own properties, the entries of the mapping, and the
  properties it inherits along its prototype chain; a property read finds an own
  property first, then an inherited one, and is \<^verbatim>\<open>undefined\<close> otherwise.
\<close>

datatype jsValue = Falsy | Truthy "int option" "string option"

record scoresMap =
  own :: "string \<rightharpoonup> jsValue"
  inherited :: "string \<rightharpoonup> jsValue"

definition getProperty :: "scoresMap \<Rightarrow> string \<Rightarrow> jsValue" where
  "getProperty obj k =
     (case own obj k of
        Some v \<Rightarrow> v
      | None \<Rightarrow> (case inherited obj k of Some v \<Rightarrow> v | None \<Rightarrow> Falsy))"

text \<open>
  The properties of \<^verbatim>\<open>Object.prototype\<close>, which an object literal and the result of
  \<^verbatim>\<open>JSON.parse\<close> inherit: functions, and under \<^verbatim>\<open>__proto__\<close> the prototype itself. All are
  truthy and none has a \<^verbatim>\<open>score\<close> or a \<^verbatim>\<open>reason\<close>.
\<close>

definition objectPrototype :: "string \<rightharpoonup> jsValue" where
  "objectPrototype =
     map_of (map (\<lambda>k. (k, Truthy None None))
       [''constructor'', ''hasOwnProperty'', ''isPrototypeOf'', ''propertyIsEnumerable'',
        ''toLocaleString'', ''toString'', ''valueOf'', ''__defineGetter__'',
        ''__defineSetter__'', ''__lookupGetter__'', ''__lookupSetter__'', ''__proto__''])"

definition plainObject :: "(string \<times> jsValue) list \<Rightarrow> scoresMap" where
  "plainObject entries = \<lparr>own = map_of entries, inherited = objectPrototype\<rparr>"

text \<open>
  The calls the component issues to its imported services, in the order it issues them,
  and the lines it writes with \<^verbatim>\<open>console.error\<close>.
\<close>

datatype call =
    optimizeSearchQuery string
  | searchTrials string TrialFilters SortOrder
  | searchPublications string PublicationFilters SortOrder
  | rankAndScoreResults string "item list"

datatype logLine = consoleError "string list"

text \<open>
  The part of the component's state that \<^verbatim>\<open>performSearch\<close> reads or writes: the
  \<open>SearchState\<close> held by \<^verbatim>\<open>useState\<close>, the hooks it resets, and the two outputs above.
\<close>

record world =
  state :: SearchState
  selectedTrial :: "Trial option"
  selectedPaper :: "SelectedPaper option"
  pipelineData :: "PipelineData option"
  comparisonMatrix :: "ComparisonMatrix option"
  deepMetrics :: "DeepTrialMetrics option"
  selectedForComparison :: "string list"
  chatContext :: ChatContext
  chatHistory :: "ChatMessage list"
  calls :: "call list"
  console :: "logLine list"

section \<open>Retrieval coordinator (performSearch)\<close>

text \<open>
  \<^verbatim>\<open>performSearch\<close> is an async function: it runs until an \<^verbatim>\<open>await\<close>, is suspended, and
  is resumed with the outcome of the awaited promise (\<open>Inr\<close> a value, \<open>Inl\<close> the thrown
  value). Each stretch between two suspension points runs without interruption and is
  one function below; the variables the stretch captured are its arguments. Every
  \<^verbatim>\<open>setState(prev => ...)\<close> is applied to the state current when the stretch runs.
\<close>

definition degradedMessage :: string where
  "degradedMessage = ''Semantic service degraded. Showing basic registry results.''"

definition searchStart ::
  "string \<Rightarrow> TrialFilters \<Rightarrow> PublicationFilters \<Rightarrow> SortOrder \<Rightarrow> world \<Rightarrow> world" where
  "searchStart searchQuery currentFilters currentPubFilters srt w =
     w\<lparr>state := (state w)\<lparr>loading := True, error := None, query := searchQuery,
                           sortOrder := srt\<rparr>,
       selectedTrial := None,
       selectedPaper := None,
       pipelineData := None,
       comparisonMatrix := None,
       deepMetrics := None,
       selectedForComparison := [],
       chatContext := global,
       chatHistory := [],
       calls := calls w @ [optimizeSearchQuery searchQuery]\<rparr>"

definition catchBlock :: "exn \<Rightarrow> world \<Rightarrow> world" where
  "catchBlock err w =
     w\<lparr>console := console w @ [consoleError [err]],
       state := (state w)\<lparr>error := Some degradedMessage, loading := False\<rparr>\<rparr>"

definition trialQuery :: "SearchProfile \<Rightarrow> string \<Rightarrow> string" where
  "trialQuery prof searchQuery =
     (if suggestedQuery prof \<noteq> [] then suggestedQuery prof else searchQuery)"

definition afterOptimize ::
  "string \<Rightarrow> TrialFilters \<Rightarrow> PublicationFilters \<Rightarrow> SortOrder \<Rightarrow> exn + SearchProfile
     \<Rightarrow> world \<Rightarrow> world" where
  "afterOptimize searchQuery currentFilters currentPubFilters srt r w =
     (case r of
        Inl err \<Rightarrow> catchBlock err w
      | Inr prof \<Rightarrow>
          w\<lparr>calls := calls w @
                 [searchTrials (trialQuery prof searchQuery) currentFilters srt,
                  searchPublications searchQuery currentPubFilters srt]\<rparr>)"

text \<open>
  \<^verbatim>\<open>Promise.all\<close> resolves when both promises have resolved and rejects as soon as one
  rejects. When both reject, the rejection that arrives first is the one thrown; the
  model takes the trial retriever's.
\<close>

definition promiseAll :: "exn + 'a \<Rightarrow> exn + 'b \<Rightarrow> exn + ('a \<times> 'b)" where
  "promiseAll ra rb =
     (case ra of
        Inl err \<Rightarrow> Inl err
      | Inr a \<Rightarrow> (case rb of Inl err \<Rightarrow> Inl err | Inr b \<Rightarrow> Inr (a, b)))"

definition afterRetrieve ::
  "string \<Rightarrow> SearchProfile \<Rightarrow> exn + (Trial list \<times> Publication list) \<Rightarrow> world \<Rightarrow> world" where
  "afterRetrieve searchQuery prof r w =
     (case r of
        Inl err \<Rightarrow> catchBlock err w
      | Inr (trialResults, pubResults) \<Rightarrow>
          (let itemsToScore = map TrialItem (take 15 trialResults) @
                              map PubItem (take 15 pubResults)
           in w\<lparr>state := (state w)\<lparr>trials := trialResults, publications := pubResults,
                                     profile := Some prof, loading := False\<rparr>,
                 calls := calls w @ [rankAndScoreResults searchQuery itemsToScore]\<rparr>))"

definition mergeTrial :: "scoresMap \<Rightarrow> Trial \<Rightarrow> Trial" where
  "mergeTrial scores t =
     (case getProperty scores (nctId t) of
        Truthy sc rs \<Rightarrow> t\<lparr>relevanceScore := sc, relevanceReason := rs\<rparr>
      | Falsy \<Rightarrow> t)"

definition mergePublication :: "scoresMap \<Rightarrow> Publication \<Rightarrow> Publication" where
  "mergePublication scores p =
     (case getProperty scores (pmid p) of
        Truthy sc rs \<Rightarrow> p\<lparr>relevanceScore_p := sc, relevanceReason_p := rs\<rparr>
      | Falsy \<Rightarrow> p)"

definition mergeScores :: "scoresMap \<Rightarrow> SearchState \<Rightarrow> SearchState" where
  "mergeScores scores prev =
     prev\<lparr>trials := map (mergeTrial scores) (trials prev),
          publications := map (mergePublication scores) (publications prev)\<rparr>"

definition afterScore :: "exn + scoresMap \<Rightarrow> world \<Rightarrow> world" where
  "afterScore r w =
     (case r of
        Inl e \<Rightarrow> w\<lparr>console := console w @ [consoleError [''Background enrichment failed'', e]]\<rparr>
      | Inr scores \<Rightarrow> w\<lparr>state := mergeScores scores (state w)\<rparr>)"

text \<open>
  The foreground part of one call, from its start to the point where it has either
  published or failed: \<open>ro\<close>, \<open>rt\<close> and \<open>rp\<close> are the outcomes of the optimizer, the trial
  retriever and the publication retriever.
\<close>

definition performSearch ::
  "string \<Rightarrow> TrialFilters \<Rightarrow> PublicationFilters \<Rightarrow> SortOrder \<Rightarrow> exn + SearchProfile
     \<Rightarrow> exn + Trial list \<Rightarrow> exn + Publication list \<Rightarrow> world \<Rightarrow> world" where
  "performSearch searchQuery currentFilters currentPubFilters srt ro rt rp w =
     (let w1 = afterOptimize searchQuery currentFilters currentPubFilters srt ro
                 (searchStart searchQuery currentFilters currentPubFilters srt w)
      in case ro of
           Inl err \<Rightarrow> w1
         | Inr prof \<Rightarrow> afterRetrieve searchQuery prof (promiseAll rt rp) w1)"

text \<open>
  The two places that call \<^verbatim>\<open>performSearch\<close>, the effect that runs once after mounting and
  \<^verbatim>\<open>handleSearchSubmit\<close>, both pass the query, the filters and the sort order of the state:
  \<^verbatim>\<open>performSearch(state.query, state.filters, state.pubFilters, state.sortOrder)\<close>.
  This is the start of the call they make.
\<close>

definition handleSearchSubmit :: "world \<Rightarrow> world" where
  "handleSearchSubmit w =
     searchStart (query (state w)) (filters (state w)) (pubFilters (state w))
       (sortOrder (state w)) w"

text \<open>
  What can happen to the component while searches are under way: a call starts, or one
  of its awaited promises settles and the call continues. A history is a list of such
  events in the order the event loop serves them; calls may overlap in it freely, since
  nothing in the component cancels a call or ties a continuation to the latest one.
\<close>

datatype event =
    Start string TrialFilters PublicationFilters SortOrder
  | Optimized string TrialFilters PublicationFilters SortOrder "exn + SearchProfile"
  | Retrieved string SearchProfile "exn + (Trial list \<times> Publication list)"
  | Scored "exn + scoresMap"

fun step :: "event \<Rightarrow> world \<Rightarrow> world" where
  "step (Start q f pf s) w = searchStart q f pf s w"
| "step (Optimized q f pf s r) w = afterOptimize q f pf s r w"
| "step (Retrieved q prof r) w = afterRetrieve q prof r w"
| "step (Scored r) w = afterScore r w"

fun run :: "event list \<Rightarrow> world \<Rightarrow> world" where
  "run [] w = w"
| "run (e # es) w = run es (step e w)"

text \<open>The events other than a successful publish and a successful score merge.\<close>

fun keepsCollections :: "event \<Rightarrow> bool" where
  "keepsCollections (Retrieved q prof (Inr r)) = False"
| "keepsCollections (Scored (Inr m)) = False"
| "keepsCollections e = True"

section \<open>Facet/Sort engine (filteredTrials)\<close>

subsection \<open>The string and array methods the engine calls\<close>

text \<open>
  \<^verbatim>\<open>String.prototype.toLowerCase\<close> on the letters A to Z, \<^verbatim>\<open>String.prototype.includes\<close>
  (the argument occurs as a contiguous run of the receiver) and, further down,
  \<^verbatim>\<open>x || 0\<close> on an optional number.
\<close>

definition toLowerChar :: "char \<Rightarrow> char" where
  "toLowerChar c =
     (let n = (of_char c :: nat) in if 65 \<le> n \<and> n \<le> 90 then char_of (n + 32) else c)"

definition toLowerCase :: "string \<Rightarrow> string" where
  "toLowerCase s = map toLowerChar s"

fun startsWith :: "string \<Rightarrow> string \<Rightarrow> bool" where
  "startsWith s [] = True"
| "startsWith [] (c # cs) = False"
| "startsWith (x # xs) (c # cs) = (x = c \<and> startsWith xs cs)"

fun stringIncludes :: "string \<Rightarrow> string \<Rightarrow> bool" where
  "stringIncludes [] q = (q = [])"
| "stringIncludes (x # xs) q = (startsWith (x # xs) q \<or> stringIncludes xs q)"

text \<open>\<^verbatim>\<open>Array.prototype.includes\<close> and \<^verbatim>\<open>Array.prototype.some\<close>.\<close>

fun arrayIncludes :: "'a list \<Rightarrow> 'a \<Rightarrow> bool" where
  "arrayIncludes [] v = False"
| "arrayIncludes (x # xs) v = (x = v \<or> arrayIncludes xs v)"

fun arraySome :: "('a \<Rightarrow> bool) \<Rightarrow> 'a list \<Rightarrow> bool" where
  "arraySome f [] = False"
| "arraySome f (x # xs) = (f x \<or> arraySome f xs)"

definition orZero :: "int option \<Rightarrow> int" where
  "orZero v = (case v of None \<Rightarrow> 0 | Some n \<Rightarrow> n)"

text \<open>
  \<^verbatim>\<open>Array.prototype.sort\<close> with a comparison function: the element for which the function
  returns a negative number comes first, and elements that compare equal keep their
  order. A comparison function may return NaN (here \<open>None\<close>), which the sort reads as 0.
  Insertion from the right end into the sorted rest computes the sorted order for a
  comparison function that is consistent on the elements. For one that is not, the
  language leaves the order to the implementation; the properties below that speak of
  order are stated for consistent functions only.
\<close>

definition sortCompare :: "('a \<Rightarrow> 'a \<Rightarrow> int option) \<Rightarrow> 'a \<Rightarrow> 'a \<Rightarrow> int" where
  "sortCompare comparefn a b = (case comparefn a b of None \<Rightarrow> 0 | Some v \<Rightarrow> v)"

fun insertSorted :: "('a \<Rightarrow> 'a \<Rightarrow> int) \<Rightarrow> 'a \<Rightarrow> 'a list \<Rightarrow> 'a list" where
  "insertSorted cmp x [] = [x]"
| "insertSorted cmp x (y # ys) =
     (if cmp x y \<le> 0 then x # y # ys else y # insertSorted cmp x ys)"

definition arraySort :: "('a \<Rightarrow> 'a \<Rightarrow> int) \<Rightarrow> 'a list \<Rightarrow> 'a list" where
  "arraySort cmp xs = foldr (insertSorted cmp) xs []"

subsection \<open>The derived view\<close>

datatype TrialSortBy = byDate | byPhase | byTitle

definition trialMatches ::
  "string \<Rightarrow> string list \<Rightarrow> string list \<Rightarrow> int \<Rightarrow> bool \<Rightarrow> Trial \<Rightarrow> bool" where
  "trialMatches localTrialQuery selectedPhases selectedStatuses enrollmentMin industryOnly t =
     (let matchesSearch =
            (stringIncludes (toLowerCase (title t)) (toLowerCase localTrialQuery) \<or>
             stringIncludes (toLowerCase (nctId t)) (toLowerCase localTrialQuery) \<or>
             stringIncludes (toLowerCase (sponsor t)) (toLowerCase localTrialQuery));
          matchesPhase =
            (length selectedPhases = 0 \<or>
             arraySome (\<lambda>p. arrayIncludes selectedPhases p) (phase t));
          matchesStatus =
            (length selectedStatuses = 0 \<or> arrayIncludes selectedStatuses (status t));
          matchesEnrollment = (orZero (enrollmentCount t) \<ge> enrollmentMin);
          matchesSponsor =
            (\<not> industryOnly \<or>
             (\<not> stringIncludes (toLowerCase (sponsor t)) ''university'' \<and>
              \<not> stringIncludes (toLowerCase (sponsor t)) ''hospital''))
      in matchesSearch \<and> matchesPhase \<and> matchesStatus \<and> matchesEnrollment \<and> matchesSponsor)"

text \<open>
  \<open>getTime s\<close> stands for \<^verbatim>\<open>new Date(s).getTime()\<close> on a non-empty string, which is NaN
  (here \<open>None\<close>) when the string cannot be parsed as a date, and \<open>localeCompare a b\<close> for
  \<^verbatim>\<open>a.localeCompare(b)\<close>: both belong to the JavaScript runtime and are parameters of the
  engine. A start date that is missing or empty is falsy, so \<^verbatim>\<open>new Date(0)\<close> is taken, whose
  time value is 0. A difference is NaN when one of its operands is.
\<close>

definition startTime :: "(string \<Rightarrow> int option) \<Rightarrow> Trial \<Rightarrow> int option" where
  "startTime getTime t =
     (case startDate t of
        None \<Rightarrow> Some 0
      | Some s \<Rightarrow> if s = [] then Some 0 else getTime s)"

definition minusNumber :: "int option \<Rightarrow> int option \<Rightarrow> int option" where
  "minusNumber x y =
     (case x of
        None \<Rightarrow> None
      | Some a \<Rightarrow> (case y of None \<Rightarrow> None | Some b \<Rightarrow> Some (a - b)))"

definition firstPhase :: "Trial \<Rightarrow> string" where
  "firstPhase t = (case phase t of [] \<Rightarrow> [] | p # ps \<Rightarrow> p)"

definition compareTrials ::
  "(string \<Rightarrow> int option) \<Rightarrow> (string \<Rightarrow> string \<Rightarrow> int) \<Rightarrow> SortOrder \<Rightarrow> TrialSortBy
     \<Rightarrow> Trial \<Rightarrow> Trial \<Rightarrow> int option" where
  "compareTrials getTime localeCompare so trialSortBy a b =
     (if so = relevance then Some (orZero (relevanceScore b) - orZero (relevanceScore a))
      else if trialSortBy = byDate
        then minusNumber (startTime getTime b) (startTime getTime a)
      else if trialSortBy = byPhase then Some (localeCompare (firstPhase b) (firstPhase a))
      else Some (localeCompare (title a) (title b)))"

definition filteredTrials ::
  "(string \<Rightarrow> int option) \<Rightarrow> (string \<Rightarrow> string \<Rightarrow> int) \<Rightarrow> Trial list \<Rightarrow> string \<Rightarrow> TrialSortBy
     \<Rightarrow> SortOrder \<Rightarrow> string list \<Rightarrow> string list \<Rightarrow> int \<Rightarrow> bool \<Rightarrow> Trial list" where
  "filteredTrials getTime localeCompare ts localTrialQuery trialSortBy so
       selectedPhases selectedStatuses enrollmentMin industryOnly =
     (let results =
            filter (trialMatches localTrialQuery selectedPhases selectedStatuses
                      enrollmentMin industryOnly) ts
      in arraySort (sortCompare (compareTrials getTime localeCompare so trialSortBy)) results)"

text \<open>\<^verbatim>\<open>toggleLocalPhase\<close>: a phase code that is not selected is appended to the selection.\<close>

definition toggleLocalPhase :: "string \<Rightarrow> string list \<Rightarrow> string list" where
  "toggleLocalPhase p prev =
     (if arrayIncludes prev p then filter (\<lambda>x. x \<noteq> p) prev else prev @ [p])"

section \<open>Notions the properties are stated with\<close>

text \<open>
  An entity with its score and rationale blanked: two entities that agree after blanking
  differ at most in those two fields.
\<close>

definition eraseScore :: "Trial \<Rightarrow> Trial" where
  "eraseScore t = t\<lparr>relevanceScore := None, relevanceReason := None\<rparr>"

definition eraseScore_p :: "Publication \<Rightarrow> Publication" where
  "eraseScore_p p = p\<lparr>relevanceScore_p := None, relevanceReason_p := None\<rparr>"

text \<open>
  The filter predicate in the words of the specification: \<open>q\<close> occurs in \<open>s\<close> as a
  substring when case is ignored, and the five criteria over sets of codes.
\<close>

definition containsIgnoreCase :: "string \<Rightarrow> string \<Rightarrow> bool" where
  "containsIgnoreCase s q = sublist (toLowerCase q) (toLowerCase s)"

definition facetPredicate ::
  "string \<Rightarrow> string list \<Rightarrow> string list \<Rightarrow> int \<Rightarrow> bool \<Rightarrow> Trial \<Rightarrow> bool" where
  "facetPredicate q selPhases selStatuses minEnrollment industryOnly t =
     ((containsIgnoreCase (title t) q \<or> containsIgnoreCase (nctId t) q \<or>
       containsIgnoreCase (sponsor t) q) \<and>
      (set selPhases = {} \<or> set selPhases \<inter> set (phase t) \<noteq> {}) \<and>
      (set selStatuses = {} \<or> status t \<in> set selStatuses) \<and>
      (case enrollmentCount t of None \<Rightarrow> 0 | Some n \<Rightarrow> n) \<ge> minEnrollment \<and>
      (industryOnly = False \<or>
       \<not> (containsIgnoreCase (sponsor t) ''university'' \<or>
          containsIgnoreCase (sponsor t) ''hospital'')))"

text \<open>
  A comparison function is consistent when any two values are ordered one way or the
  other and the order is transitive. \<^verbatim>\<open>Array.prototype.sort\<close> promises a sorted result
  only for such a function. A start date is parseable when its time value is a number.
\<close>

definition parseable :: "(string \<Rightarrow> int option) \<Rightarrow> Trial \<Rightarrow> bool" where
  "parseable getTime t = (startTime getTime t \<noteq> None)"

definition consistentCompare :: "('a \<Rightarrow> 'a \<Rightarrow> int) \<Rightarrow> bool" where
  "consistentCompare cmp =
     ((\<forall>a b. cmp a b \<le> 0 \<or> cmp b a \<le> 0) \<and>
      (\<forall>a b c. cmp a b \<le> 0 \<and> cmp b c \<le> 0 \<longrightarrow> cmp a c \<le> 0))"

section \<open>Instances of the runtime parameters\<close>

text \<open>
  An instance of \<open>getTime\<close> that knows the date-only form \<^verbatim>\<open>YYYY-MM-DD\<close> and nothing else:
  for a day of the calendar it is the number of days from 1 January 1970 to that day of
  the proleptic Gregorian calendar, in milliseconds, and for any other string NaN.
\<close>

definition isDigit :: "char \<Rightarrow> bool" where
  "isDigit c = (48 \<le> (of_char c :: nat) \<and> (of_char c :: nat) \<le> 57)"

definition daysInMonth :: "int \<Rightarrow> int \<Rightarrow> int" where
  "daysInMonth y m =
     (if m = 2 then (if y mod 4 = 0 \<and> (y mod 100 \<noteq> 0 \<or> y mod 400 = 0) then 29 else 28)
      else if m = 4 \<or> m = 6 \<or> m = 9 \<or> m = 11 then 30 else 31)"

definition digitValue :: "char \<Rightarrow> int" where
  "digitValue c = int (of_char c) - 48"

definition decimal :: "string \<Rightarrow> int" where
  "decimal s = foldl (\<lambda>n c. 10 * n + digitValue c) 0 s"

definition daysFromCivil :: "int \<Rightarrow> int \<Rightarrow> int \<Rightarrow> int" where
  "daysFromCivil y m d =
     (let y' = (if m \<le> 2 then y - 1 else y);
          era = y' div 400;
          yoe = y' - era * 400;
          doy = (153 * (if m > 2 then m - 3 else m + 9) + 2) div 5 + d - 1;
          doe = yoe * 365 + yoe div 4 - yoe div 100 + doy
      in era * 146097 + doe - 719468)"

definition isoDateTime :: "string \<Rightarrow> int option" where
  "isoDateTime s =
     (let y = decimal (take 4 s); m = decimal (take 2 (drop 5 s));
          d = decimal (take 2 (drop 8 s))
      in if length s = 10 \<and> list_all isDigit (take 4 s) \<and> s ! 4 = CHR ''-'' \<and>
            list_all isDigit (take 2 (drop 5 s)) \<and> s ! 7 = CHR ''-'' \<and>
            list_all isDigit (take 2 (drop 8 s)) \<and>
            1 \<le> m \<and> m \<le> 12 \<and> 1 \<le> d \<and> d \<le> daysInMonth y m
         then Some (86400000 * daysFromCivil y m d)
         else None)"

text \<open>
  Comparison of two strings code unit by code unit, a consistent comparison function to
  put in the place of \<^verbatim>\<open>localeCompare\<close>.
\<close>

fun codeUnitCompare :: "string \<Rightarrow> string \<Rightarrow> int" where
  "codeUnitCompare [] [] = 0"
| "codeUnitCompare [] (y # ys) = - 1"
| "codeUnitCompare (x # xs) [] = 1"
| "codeUnitCompare (x # xs) (y # ys) =
     (if (of_char x :: nat) < of_char y then - 1
      else if (of_char y :: nat) < of_char x then 1
      else codeUnitCompare xs ys)"

section \<open>Concrete data\<close>

text \<open>
  The state the component starts from (the argument of \<^verbatim>\<open>useState\<close> in \<^verbatim>\<open>App\<close>), and a few
  entities on which the theorems below are instantiated.
\<close>

definition initialState :: SearchState where
  "initialState =
     \<lparr>trials = [], publications = [], loading = False, error = None,
      query = ''KRAS G12C Inhibitors in Lung Cancer'',
      filters = \<lparr>statuses = [], phases = []\<rparr>,
      pubFilters = \<lparr>dateFrom = [], dateTo = [], journal_f = [], author_f = []\<rparr>,
      sortOrder = relevance, profile = None\<rparr>"

definition initialWorld :: world where
  "initialWorld =
     \<lparr>state = initialState, selectedTrial = None, selectedPaper = None,
      pipelineData = None, comparisonMatrix = None, deepMetrics = None,
      selectedForComparison = [], chatContext = global, chatHistory = [],
      calls = [], console = []\<rparr>"

definition blankTrial :: Trial where
  "blankTrial =
     \<lparr>id_t = [], nctId = [], title = [], status = [], phase = [], condition = [],
      intervention = [], sponsor = [], startDate = None, primaryCompletionDate = None,
      description = None, briefSummary = None, molecularTargets = None,
      lastUpdateDate = None, locations = None, studyType = None, relevanceScore = None,
      relevanceReason = None, primaryOutcomes = None, secondaryOutcomes = None,
      enrollmentCount = None\<rparr>"

definition trialA :: Trial where
  "trialA =
     blankTrial\<lparr>nctId := ''NCT01'', title := ''Adagrasib in lung cancer'',
       status := ''RECRUITING'', phase := [''PHASE1''], sponsor := ''Genentech'',
       startDate := Some ''2023-01-01'', relevanceScore := Some 90,
       enrollmentCount := Some 150\<rparr>"

definition trialB :: Trial where
  "trialB =
     blankTrial\<lparr>nctId := ''NCT02'', title := ''Sotorasib versus docetaxel'',
       status := ''COMPLETED'', phase := [''PHASE2''], sponsor := ''Johns Hopkins Hospital'',
       startDate := Some ''2024-01-01'', relevanceScore := Some 10,
       enrollmentCount := Some 50\<rparr>"

definition trialC :: Trial where
  "trialC =
     blankTrial\<lparr>nctId := ''NCT03'', title := ''Biomarker registry'',
       status := ''RECRUITING'', sponsor := ''Amgen''\<rparr>"

definition trialD :: Trial where
  "trialD =
     blankTrial\<lparr>nctId := ''NCT04'', title := ''Cohort follow-up'',
       status := ''COMPLETED'', phase := [''PHASE3''], sponsor := ''Pfizer'',
       startDate := Some ''1960-01-01'', enrollmentCount := Some 5000\<rparr>"

definition blankPublication :: Publication where
  "blankPublication =
     \<lparr>pmid = [], title_p = [], authors = [], journal = [], pubDate = [], doi = None,
      abstract = None, relevanceScore_p = None, relevanceReason_p = None\<rparr>"

definition pubA :: Publication where
  "pubA = blankPublication\<lparr>pmid := ''101'', title_p := ''KRAS G12C inhibition'',
            journal := ''NEJM'', pubDate := ''2021''\<rparr>"

definition pubB :: Publication where
  "pubB = blankPublication\<lparr>pmid := ''102'', title_p := ''Resistance mechanisms'',
            journal := ''Nature'', pubDate := ''2022''\<rparr>"

definition profileA :: SearchProfile where
  "profileA =
     \<lparr>conditions = [''NSCLC''], interventions = [''sotorasib''], targets = [''KRAS''],
      synonyms = [], suggestedQuery = ''KRAS G12C AND lung''\<rparr>"

definition profileEmpty :: SearchProfile where
  "profileEmpty =
     \<lparr>conditions = [], interventions = [], targets = [], synonyms = [],
      suggestedQuery = []\<rparr>"

definition filtersA :: TrialFilters where
  "filtersA = \<lparr>statuses = [''RECRUITING''], phases = []\<rparr>"

definition staleWorld :: world where
  "staleWorld =
     initialWorld\<lparr>state := initialState\<lparr>trials := [trialA], publications := [pubA],
                                         profile := Some profileA\<rparr>,
       selectedTrial := Some trialA,
       selectedForComparison := [''NCT01''],
       chatContext := trial trialA,
       chatHistory := [\<lparr>role = user, text_m = ''hello''\<rparr>]\<rparr>"

definition trialE :: Trial where
  "trialE =
     blankTrial\<lparr>nctId := ''NCT05'', title := ''Dose finding'',
       status := ''RECRUITING'', phase := [''PHASE1''], sponsor := ''Novartis'',
       startDate := Some ''TBD''\<rparr>"


definition scoresA :: scoresMap where
  "scoresA =
     plainObject
       [(''NCT01'', Truthy (Some 77) (Some ''on target'')),
        (''NCT04'', Truthy (Some 33) (Some ''same sponsor'')),
        (''101'', Truthy (Some 55) (Some ''related''))]"

definition scoresB :: scoresMap where
  "scoresB = plainObject [(''NCT03'', Truthy (Some 61) (Some ''registry of interest''))]"



section \<open>Properties of the coordinator\<close>

lemmas coordinator_defs =
  performSearch_def searchStart_def afterOptimize_def afterRetrieve_def promiseAll_def
  catchBlock_def

text \<open>
  C1. When the optimizer and both retrievers succeed, the state at the publish point
  holds exactly the list the trial retriever returned and exactly the list the
  publication retriever returned (hence the same lengths and the same identifiers in the
  same order), the profile is the optimizer's output, and \<open>loading\<close> is false.
\<close>

theorem publish_on_joint_success:
  "trials (state (performSearch q f pf s (Inr prof) (Inr trialResults) (Inr pubResults) w))
     = trialResults \<and>
   publications (state (performSearch q f pf s (Inr prof) (Inr trialResults) (Inr pubResults) w))
     = pubResults \<and>
   length (trials (state (performSearch q f pf s (Inr prof) (Inr trialResults) (Inr pubResults) w)))
     = length trialResults \<and>
   length (publications (state (performSearch q f pf s (Inr prof) (Inr trialResults) (Inr pubResults) w)))
     = length pubResults \<and>
   map nctId (trials (state (performSearch q f pf s (Inr prof) (Inr trialResults) (Inr pubResults) w)))
     = map nctId trialResults \<and>
   map pmid (publications (state (performSearch q f pf s (Inr prof) (Inr trialResults) (Inr pubResults) w)))
     = map pmid pubResults \<and>
   profile (state (performSearch q f pf s (Inr prof) (Inr trialResults) (Inr pubResults) w))
     = Some prof \<and>
   loading (state (performSearch q f pf s (Inr prof) (Inr trialResults) (Inr pubResults) w))
     = False"
  by (simp add: coordinator_defs)

theorem publish_on_joint_success_witness:
  "map nctId (trials (state (performSearch ''kras'' filtersA (pubFilters initialState) newest
       (Inr profileA) (Inr [trialB, trialC]) (Inr [pubB]) staleWorld)))
     = [''NCT02'', ''NCT03''] \<and>
   map pmid (publications (state (performSearch ''kras'' filtersA (pubFilters initialState) newest
       (Inr profileA) (Inr [trialB, trialC]) (Inr [pubB]) staleWorld)))
     = [''102''] \<and>
   profile (state (performSearch ''kras'' filtersA (pubFilters initialState) newest
       (Inr profileA) (Inr [trialB, trialC]) (Inr [pubB]) staleWorld))
     = Some profileA \<and>
   loading (state (performSearch ''kras'' filtersA (pubFilters initialState) newest
       (Inr profileA) (Inr [trialB, trialC]) (Inr [pubB]) staleWorld))
     = False"
  using publish_on_joint_success [of "''kras''" filtersA "pubFilters initialState" newest
      profileA "[trialB, trialC]" "[pubB]" staleWorld]
  by (simp add: trialB_def trialC_def pubB_def)

text \<open>
  C2. When the optimizer throws, or the trial retriever or the publication retriever
  throws, the collections and the profile of the state are the ones from before the call,
  the error message is set and \<open>loading\<close> is false.
\<close>

theorem failed_commit_keeps_collections:
  assumes "isl ro \<or> isl rt \<or> isl rp"
  shows
    "trials (state (performSearch q f pf s ro rt rp w)) = trials (state w) \<and>
     publications (state (performSearch q f pf s ro rt rp w)) = publications (state w) \<and>
     profile (state (performSearch q f pf s ro rt rp w)) = profile (state w) \<and>
     error (state (performSearch q f pf s ro rt rp w)) \<noteq> None \<and>
     loading (state (performSearch q f pf s ro rt rp w)) = False"
  using assms by (cases ro; cases rt; cases rp) (simp_all add: coordinator_defs)

theorem failed_commit_keeps_collections_witness:
  "(isl (Inr profileA :: exn + SearchProfile) \<or> isl (Inr [trialB] :: exn + Trial list) \<or>
    isl (Inl ''timeout'' :: exn + Publication list)) \<and>
   trials (state (performSearch ''kras'' filtersA (pubFilters initialState) newest
       (Inr profileA) (Inr [trialB]) (Inl ''timeout'') staleWorld)) = [trialA] \<and>
   publications (state (performSearch ''kras'' filtersA (pubFilters initialState) newest
       (Inr profileA) (Inr [trialB]) (Inl ''timeout'') staleWorld)) = [pubA] \<and>
   profile (state (performSearch ''kras'' filtersA (pubFilters initialState) newest
       (Inr profileA) (Inr [trialB]) (Inl ''timeout'') staleWorld)) = Some profileA \<and>
   error (state (performSearch ''kras'' filtersA (pubFilters initialState) newest
       (Inr profileA) (Inr [trialB]) (Inl ''timeout'') staleWorld)) = Some degradedMessage \<and>
   loading (state (performSearch ''kras'' filtersA (pubFilters initialState) newest
       (Inr profileA) (Inr [trialB]) (Inl ''timeout'') staleWorld)) = False"
  using failed_commit_keeps_collections [of "Inr profileA" "Inr [trialB]" "Inl ''timeout''"
      "''kras''" filtersA "pubFilters initialState" newest staleWorld]
  by (simp add: coordinator_defs staleWorld_def initialWorld_def initialState_def)

lemma mergeScores_frame:
  "length (trials (mergeScores m st)) = length (trials st) \<and>
   length (publications (mergeScores m st)) = length (publications st) \<and>
   map nctId (trials (mergeScores m st)) = map nctId (trials st) \<and>
   map pmid (publications (mergeScores m st)) = map pmid (publications st) \<and>
   map eraseScore (trials (mergeScores m st)) = map eraseScore (trials st) \<and>
   map eraseScore_p (publications (mergeScores m st)) = map eraseScore_p (publications st) \<and>
   (mergeScores m st)\<lparr>trials := trials st, publications := publications st\<rparr> = st"
  by (simp add: mergeScores_def mergeTrial_def mergePublication_def eraseScore_def
        eraseScore_p_def split: jsValue.splits)

lemma mergeScores_nth:
  "i < length (trials st) \<Longrightarrow>
     trials (mergeScores m st) ! i =
       (case getProperty m (nctId (trials st ! i)) of
          Truthy sc rs \<Rightarrow> (trials st ! i)\<lparr>relevanceScore := sc, relevanceReason := rs\<rparr>
        | Falsy \<Rightarrow> trials st ! i)"
  "i < length (publications st) \<Longrightarrow>
     publications (mergeScores m st) ! i =
       (case getProperty m (pmid (publications st ! i)) of
          Truthy sc rs \<Rightarrow> (publications st ! i)\<lparr>relevanceScore_p := sc, relevanceReason_p := rs\<rparr>
        | Falsy \<Rightarrow> publications st ! i)"
  by (simp_all add: mergeScores_def mergeTrial_def mergePublication_def)

lemma getProperty_own:
  "own m k = Some v \<Longrightarrow> getProperty m k = v"
  "own m k = None \<Longrightarrow> inherited m k = None \<Longrightarrow> getProperty m k = Falsy"
  by (simp_all add: getProperty_def)


text \<open>
  C4. Whatever the scorer's outcome, \<open>loading\<close> and \<open>error\<close> stay as they are, and the
  step changes nothing outside the state and the console. When the scorer throws, the
  state is untouched altogether: one line is written to the console, and on success
  nothing is.
\<close>

theorem enrichment_outcome_isolated:
  "loading (state (afterScore r w)) = loading (state w) \<and>
   error (state (afterScore r w)) = error (state w) \<and>
   (afterScore r w)\<lparr>state := state w, console := console w\<rparr> = w \<and>
   state (afterScore (Inl e) w) = state w \<and>
   console (afterScore (Inl e) w)
     = console w @ [consoleError [''Background enrichment failed'', e]] \<and>
   console (afterScore (Inr m) w) = console w"
  by (cases r) (simp_all add: afterScore_def mergeScores_def)

theorem enrichment_outcome_isolated_witness:
  "state (afterScore (Inl ''quota exceeded'') staleWorld) = state staleWorld \<and>
   error (state (afterScore (Inl ''quota exceeded'') staleWorld)) = None \<and>
   loading (state (afterScore (Inl ''quota exceeded'') staleWorld)) = False \<and>
   console (afterScore (Inl ''quota exceeded'') staleWorld)
     = [consoleError [''Background enrichment failed'', ''quota exceeded'']]"
  using enrichment_outcome_isolated [of "Inl ''quota exceeded''" staleWorld "''quota exceeded''"]
  by (simp add: staleWorld_def initialWorld_def initialState_def)

lemma run_append: "run (es @ fs) w = run fs (run es w)"
  by (induction es arbitrary: w) simp_all

lemma step_keeps_collections:
  "keepsCollections e \<Longrightarrow>
     trials (state (step e w)) = trials (state w) \<and>
     publications (state (step e w)) = publications (state w)"
  by (cases e rule: keepsCollections.cases)
     (simp_all add: searchStart_def afterOptimize_def afterRetrieve_def afterScore_def
        catchBlock_def split: sum.splits)

lemma run_keeps_collections:
  "list_all keepsCollections es \<Longrightarrow>
     trials (state (run es w)) = trials (state w) \<and>
     publications (state (run es w)) = publications (state w)"
  by (induction es arbitrary: w) (simp_all add: step_keeps_collections)

text \<open>
  C5. A search that starts does not cancel anything: after any history of events, the
  scores \<open>m1\<close> that then arrive are merged into the collections the state holds at that
  moment, trial by trial and publication by publication, whichever commit they were
  requested for. In particular, when a commit has published \<open>t2\<close> and \<open>p2\<close> after that
  history and nothing has published or merged since, scores requested by an earlier
  commit are merged into \<open>t2\<close> and \<open>p2\<close>. The step takes no epoch and no snapshot.
\<close>

theorem stale_scores_merge_into_current:
  "trials (state (run (es @ [Scored (Inr m1)]) w0)) =
     map (\<lambda>t. case getProperty m1 (nctId t) of
                 Truthy sc rs \<Rightarrow> t\<lparr>relevanceScore := sc, relevanceReason := rs\<rparr>
               | Falsy \<Rightarrow> t)
       (trials (state (run es w0))) \<and>
   publications (state (run (es @ [Scored (Inr m1)]) w0)) =
     map (\<lambda>p. case getProperty m1 (pmid p) of
                 Truthy sc rs \<Rightarrow> p\<lparr>relevanceScore_p := sc, relevanceReason_p := rs\<rparr>
               | Falsy \<Rightarrow> p)
       (publications (state (run es w0))) \<and>
   (list_all keepsCollections mid \<longrightarrow>
      trials (state (run (es @ [Retrieved q2 prof2 (Inr (t2, p2))] @ mid @ [Scored (Inr m1)]) w0)) =
        map (\<lambda>t. case getProperty m1 (nctId t) of
                    Truthy sc rs \<Rightarrow> t\<lparr>relevanceScore := sc, relevanceReason := rs\<rparr>
                  | Falsy \<Rightarrow> t) t2 \<and>
      publications (state (run (es @ [Retrieved q2 prof2 (Inr (t2, p2))] @ mid @ [Scored (Inr m1)]) w0)) =
        map (\<lambda>p. case getProperty m1 (pmid p) of
                    Truthy sc rs \<Rightarrow> p\<lparr>relevanceScore_p := sc, relevanceReason_p := rs\<rparr>
                  | Falsy \<Rightarrow> p) p2)"
proof -
  have mt: "mergeTrial m1 =
      (\<lambda>t. case getProperty m1 (nctId t) of
              Truthy sc rs \<Rightarrow> t\<lparr>relevanceScore := sc, relevanceReason := rs\<rparr>
            | Falsy \<Rightarrow> t)"
    by (rule ext) (simp add: mergeTrial_def)
  have mp: "mergePublication m1 =
      (\<lambda>p. case getProperty m1 (pmid p) of
              Truthy sc rs \<Rightarrow> p\<lparr>relevanceScore_p := sc, relevanceReason_p := rs\<rparr>
            | Falsy \<Rightarrow> p)"
    by (rule ext) (simp add: mergePublication_def)
  have arrive: "trials (state (run (hs @ [Scored (Inr m1)]) w0)) =
        map (mergeTrial m1) (trials (state (run hs w0))) \<and>
      publications (state (run (hs @ [Scored (Inr m1)]) w0)) =
        map (mergePublication m1) (publications (state (run hs w0)))" for hs
    by (simp add: run_append afterScore_def mergeScores_def)
  have current: "trials (state (run (es @ [Retrieved q2 prof2 (Inr (t2, p2))] @ mid) w0)) = t2 \<and>
      publications (state (run (es @ [Retrieved q2 prof2 (Inr (t2, p2))] @ mid) w0)) = p2"
    if "list_all keepsCollections mid"
    using run_keeps_collections [OF that, of "afterRetrieve q2 prof2 (Inr (t2, p2)) (run es w0)"]
    by (simp add: run_append afterRetrieve_def)
  have late: "trials (state (run (es @ [Retrieved q2 prof2 (Inr (t2, p2))] @ mid @ [Scored (Inr m1)]) w0)) =
        map (mergeTrial m1) t2 \<and>
      publications (state (run (es @ [Retrieved q2 prof2 (Inr (t2, p2))] @ mid @ [Scored (Inr m1)]) w0)) =
        map (mergePublication m1) p2"
    if "list_all keepsCollections mid"
    using arrive [of "es @ [Retrieved q2 prof2 (Inr (t2, p2))] @ mid"] current [OF that]
    by simp
  from arrive [of es] late show ?thesis
    unfolding mt mp by blast
qed

theorem stale_scores_merge_into_current_witness:
  "list_all keepsCollections
     [Start ''third'' filtersA (pubFilters initialState) relevance, Scored (Inl ''quota exceeded'')] \<and>
   map relevanceScore (trials (state (run
     ([Start ''first'' filtersA (pubFilters initialState) relevance,
       Optimized ''first'' filtersA (pubFilters initialState) relevance (Inr profileA),
       Retrieved ''first'' profileA (Inr ([trialA, trialD], [pubA])),
       Start ''second'' filtersA (pubFilters initialState) relevance,
       Optimized ''second'' filtersA (pubFilters initialState) relevance (Inr profileEmpty)] @
      [Retrieved ''second'' profileEmpty (Inr ([trialC, trialD], [pubB, pubA]))] @
      [Start ''third'' filtersA (pubFilters initialState) relevance, Scored (Inl ''quota exceeded'')] @
      [Scored (Inr scoresA)]) initialWorld)))
     = [None, Some 33] \<and>
   map relevanceScore_p (publications (state (run
     ([Start ''first'' filtersA (pubFilters initialState) relevance,
       Optimized ''first'' filtersA (pubFilters initialState) relevance (Inr profileA),
       Retrieved ''first'' profileA (Inr ([trialA, trialD], [pubA])),
       Start ''second'' filtersA (pubFilters initialState) relevance,
       Optimized ''second'' filtersA (pubFilters initialState) relevance (Inr profileEmpty)] @
      [Retrieved ''second'' profileEmpty (Inr ([trialC, trialD], [pubB, pubA]))] @
      [Start ''third'' filtersA (pubFilters initialState) relevance, Scored (Inl ''quota exceeded'')] @
      [Scored (Inr scoresA)]) initialWorld)))
     = [None, Some 55] \<and>
   map relevanceScore (trials (state (run
     ([Start ''first'' filtersA (pubFilters initialState) relevance,
       Optimized ''first'' filtersA (pubFilters initialState) relevance (Inr profileA),
       Retrieved ''first'' profileA (Inr ([trialA, trialD], [pubA])),
       Start ''second'' filtersA (pubFilters initialState) relevance,
       Optimized ''second'' filtersA (pubFilters initialState) relevance (Inr profileEmpty),
       Retrieved ''second'' profileEmpty (Inr ([trialC, trialD], [pubB, pubA])),
       Scored (Inr scoresB)] @
      [Scored (Inr scoresA)]) initialWorld)))
     = [Some 61, Some 33]"
proof -
  let ?mid = "[Start ''third'' filtersA (pubFilters initialState) relevance,
               Scored (Inl ''quota exceeded'')]"
  let ?es = "[Start ''first'' filtersA (pubFilters initialState) relevance,
       Optimized ''first'' filtersA (pubFilters initialState) relevance (Inr profileA),
       Retrieved ''first'' profileA (Inr ([trialA, trialD], [pubA])),
       Start ''second'' filtersA (pubFilters initialState) relevance,
       Optimized ''second'' filtersA (pubFilters initialState) relevance (Inr profileEmpty)]"
  let ?own = "[Start ''first'' filtersA (pubFilters initialState) relevance,
       Optimized ''first'' filtersA (pubFilters initialState) relevance (Inr profileA),
       Retrieved ''first'' profileA (Inr ([trialA, trialD], [pubA])),
       Start ''second'' filtersA (pubFilters initialState) relevance,
       Optimized ''second'' filtersA (pubFilters initialState) relevance (Inr profileEmpty),
       Retrieved ''second'' profileEmpty (Inr ([trialC, trialD], [pubB, pubA])),
       Scored (Inr scoresB)]"
  let ?mt = "\<lambda>t. case getProperty scoresA (nctId t) of
                 Truthy sc rs \<Rightarrow> t\<lparr>relevanceScore := sc, relevanceReason := rs\<rparr>
               | Falsy \<Rightarrow> t"
  let ?mp = "\<lambda>p. case getProperty scoresA (pmid p) of
                 Truthy sc rs \<Rightarrow> p\<lparr>relevanceScore_p := sc, relevanceReason_p := rs\<rparr>
               | Falsy \<Rightarrow> p"
  have mid: "list_all keepsCollections ?mid"
    by simp
  note late = stale_scores_merge_into_current [where es = ?es and mid = ?mid
      and ?q2.0 = "''second''" and ?prof2.0 = profileEmpty and ?t2.0 = "[trialC, trialD]"
      and ?p2.0 = "[pubB, pubA]" and ?m1.0 = scoresA and ?w0.0 = initialWorld]
  note general = stale_scores_merge_into_current [where es = ?own and mid = "[]"
      and ?q2.0 = "''second''" and ?prof2.0 = profileEmpty and ?t2.0 = "[trialC, trialD]"
      and ?p2.0 = "[pubB, pubA]" and ?m1.0 = scoresA and ?w0.0 = initialWorld]
  have landedT: "trials (state (run
       (?es @ [Retrieved ''second'' profileEmpty (Inr ([trialC, trialD], [pubB, pubA]))] @ ?mid @
        [Scored (Inr scoresA)]) initialWorld)) = map ?mt [trialC, trialD]"
    using late mid by blast
  have landedP: "publications (state (run
       (?es @ [Retrieved ''second'' profileEmpty (Inr ([trialC, trialD], [pubB, pubA]))] @ ?mid @
        [Scored (Inr scoresA)]) initialWorld)) = map ?mp [pubB, pubA]"
    using late mid by blast
  have landedG: "trials (state (run (?own @ [Scored (Inr scoresA)]) initialWorld)) =
      map ?mt (trials (state (run ?own initialWorld)))"
    using general by blast
  have before: "trials (state (run ?own initialWorld)) = map (mergeTrial scoresB) [trialC, trialD]"
    by (simp add: afterScore_def mergeScores_def afterRetrieve_def)
  have evT: "map relevanceScore (map ?mt [trialC, trialD]) = [None, Some 33]"
    by (simp add: getProperty_def scoresA_def plainObject_def objectPrototype_def trialC_def
          trialD_def blankTrial_def)
  have evP: "map relevanceScore_p (map ?mp [pubB, pubA]) = [None, Some 55]"
    by (simp add: getProperty_def scoresA_def plainObject_def objectPrototype_def pubA_def
          pubB_def blankPublication_def)
  have evG: "map relevanceScore (map ?mt (map (mergeTrial scoresB) [trialC, trialD]))
      = [Some 61, Some 33]"
    by (simp add: mergeTrial_def getProperty_def scoresA_def scoresB_def plainObject_def
          objectPrototype_def trialC_def trialD_def blankTrial_def)
  show ?thesis
    unfolding landedT landedP landedG before
    by (intro conjI mid evT evP evG)
qed

text \<open>
  C6 (amended). In a successful commit the component issues four calls, in this order:
  the optimizer with the raw query; the trial retriever with the optimizer's suggested
  query, or with the raw query when the suggested query is empty; the publication
  retriever with the raw query; and the scorer with the raw query and the first 15
  trials followed by the first 15 publications of the collections just published.
\<close>

theorem calls_of_successful_commit:
  "calls (performSearch q f pf s (Inr prof) (Inr trialResults) (Inr pubResults) w) =
     calls w @
     [optimizeSearchQuery q,
      searchTrials (if suggestedQuery prof = [] then q else suggestedQuery prof) f s,
      searchPublications q pf s,
      rankAndScoreResults q
        (map TrialItem (take 15 (trials (state
            (performSearch q f pf s (Inr prof) (Inr trialResults) (Inr pubResults) w)))) @
         map PubItem (take 15 (publications (state
            (performSearch q f pf s (Inr prof) (Inr trialResults) (Inr pubResults) w)))))]"
  by (simp add: coordinator_defs trialQuery_def)

theorem calls_of_successful_commit_witness:
  "calls (performSearch ''kras'' filtersA (pubFilters initialState) newest
        (Inr profileA) (Inr (replicate 20 trialB)) (Inr [pubB]) initialWorld) =
     [optimizeSearchQuery ''kras'',
      searchTrials ''KRAS G12C AND lung'' filtersA newest,
      searchPublications ''kras'' (pubFilters initialState) newest,
      rankAndScoreResults ''kras'' (map TrialItem (replicate 15 trialB) @ [PubItem pubB])]"
  using calls_of_successful_commit [of "''kras''" filtersA "pubFilters initialState" newest
      profileA "replicate 20 trialB" "[pubB]" initialWorld]
  by (simp add: coordinator_defs profileA_def initialWorld_def)

theorem trial_retriever_query_counterexample:
  "suggestedQuery profileEmpty \<noteq> ''kras'' \<and>
   calls (performSearch ''kras'' filtersA (pubFilters initialState) newest
        (Inr profileEmpty) (Inr [trialB]) (Inr [pubB]) initialWorld) ! 1
     = searchTrials ''kras'' filtersA newest \<and>
   searchTrials (suggestedQuery profileEmpty) filtersA newest \<notin>
     set (calls (performSearch ''kras'' filtersA (pubFilters initialState) newest
        (Inr profileEmpty) (Inr [trialB]) (Inr [pubB]) initialWorld))"
  by (simp add: coordinator_defs trialQuery_def profileEmpty_def initialWorld_def)

lemma step_keeps_filters:
  "filters (state (step e w)) = filters (state w) \<and>
   pubFilters (state (step e w)) = pubFilters (state w)"
  by (cases e)
     (simp_all add: searchStart_def afterOptimize_def afterRetrieve_def afterScore_def
        catchBlock_def mergeScores_def split: sum.splits prod.splits)

lemma run_keeps_filters:
  "filters (state (run es w)) = filters (state w) \<and>
   pubFilters (state (run es w)) = pubFilters (state w)"
  by (induction es arbitrary: w) (simp_all add: step_keeps_filters)

text \<open>
  C7. \<^verbatim>\<open>performSearch\<close> is local to the component, and both places that call it pass the
  filters the state holds; no step of a search writes them (\<open>run_keeps_filters\<close>). For
  every such start, with any query and sort order: the selected trial and paper, the
  pipeline, comparison and audit reports, the comparison selection, the chat context and
  the chat history are cleared, \<open>loading\<close> is set, \<open>error\<close> is cleared, and the query, the
  sort order and the filters of the state are those of the new search. The collections
  and the profile are not touched.
\<close>

theorem search_start_resets:
  assumes "f = filters (state w)" and "pf = pubFilters (state w)"
  shows
    "selectedTrial (searchStart q f pf s w) = None \<and>
     selectedPaper (searchStart q f pf s w) = None \<and>
     pipelineData (searchStart q f pf s w) = None \<and>
     comparisonMatrix (searchStart q f pf s w) = None \<and>
     deepMetrics (searchStart q f pf s w) = None \<and>
     selectedForComparison (searchStart q f pf s w) = [] \<and>
     chatContext (searchStart q f pf s w) = global \<and>
     chatHistory (searchStart q f pf s w) = [] \<and>
     loading (state (searchStart q f pf s w)) = True \<and>
     error (state (searchStart q f pf s w)) = None \<and>
     query (state (searchStart q f pf s w)) = q \<and>
     sortOrder (state (searchStart q f pf s w)) = s \<and>
     filters (state (searchStart q f pf s w)) = f \<and>
     pubFilters (state (searchStart q f pf s w)) = pf \<and>
     trials (state (searchStart q f pf s w)) = trials (state w) \<and>
     publications (state (searchStart q f pf s w)) = publications (state w) \<and>
     profile (state (searchStart q f pf s w)) = profile (state w)"
  using assms by (simp add: searchStart_def)

theorem search_start_resets_witness:
  "filters initialState = filters (state staleWorld) \<and>
   pubFilters initialState = pubFilters (state staleWorld) \<and>
   handleSearchSubmit (staleWorld\<lparr>state := (state staleWorld)\<lparr>query := ''kras'', sortOrder := newest\<rparr>\<rparr>)
     = searchStart ''kras'' (filters initialState) (pubFilters initialState) newest
         (staleWorld\<lparr>state := (state staleWorld)\<lparr>query := ''kras'', sortOrder := newest\<rparr>\<rparr>) \<and>
   selectedTrial staleWorld = Some trialA \<and>
   selectedTrial (searchStart ''kras'' (filters initialState) (pubFilters initialState) newest
       staleWorld) = None \<and>
   chatHistory staleWorld \<noteq> [] \<and>
   chatHistory (searchStart ''kras'' (filters initialState) (pubFilters initialState) newest
       staleWorld) = [] \<and>
   selectedForComparison (searchStart ''kras'' (filters initialState) (pubFilters initialState)
       newest staleWorld) = [] \<and>
   loading (state (searchStart ''kras'' (filters initialState) (pubFilters initialState) newest
       staleWorld)) = True \<and>
   query (state (searchStart ''kras'' (filters initialState) (pubFilters initialState) newest
       staleWorld)) = ''kras'' \<and>
   sortOrder (state (searchStart ''kras'' (filters initialState) (pubFilters initialState) newest
       staleWorld)) = newest \<and>
   filters (state (searchStart ''kras'' (filters initialState) (pubFilters initialState) newest
       staleWorld)) = filters initialState \<and>
   pubFilters (state (searchStart ''kras'' (filters initialState) (pubFilters initialState) newest
       staleWorld)) = pubFilters initialState"
proof -
  have f: "filters initialState = filters (state staleWorld)"
    by (simp add: staleWorld_def initialWorld_def)
  have pf: "pubFilters initialState = pubFilters (state staleWorld)"
    by (simp add: staleWorld_def initialWorld_def)
  have site: "handleSearchSubmit
       (staleWorld\<lparr>state := (state staleWorld)\<lparr>query := ''kras'', sortOrder := newest\<rparr>\<rparr>)
     = searchStart ''kras'' (filters initialState) (pubFilters initialState) newest
         (staleWorld\<lparr>state := (state staleWorld)\<lparr>query := ''kras'', sortOrder := newest\<rparr>\<rparr>)"
    by (simp add: handleSearchSubmit_def staleWorld_def initialWorld_def)
  have before: "selectedTrial staleWorld = Some trialA \<and> chatHistory staleWorld \<noteq> []"
    by (simp add: staleWorld_def initialWorld_def)
  from search_start_resets [OF f pf, of "''kras''" newest] f pf site before
  show ?thesis by simp
qed

section \<open>Properties of the Facet/Sort engine\<close>

subsection \<open>The library methods\<close>

lemma startsWith_prefix: "startsWith s q = prefix q s"
  by (induction s q rule: startsWith.induct) auto

lemma stringIncludes_sublist: "stringIncludes s q = sublist q s"
  by (induction s) (simp_all add: startsWith_prefix sublist_Cons_right)

lemma arrayIncludes_iff: "arrayIncludes xs v = (v \<in> set xs)"
  by (induction xs) auto

lemma arraySome_iff: "arraySome f xs = (\<exists>x \<in> set xs. f x)"
  by (induction xs) auto

lemma toLowerCase_literals:
  "toLowerCase ''university'' = ''university''" "toLowerCase ''hospital'' = ''hospital''"
  by (simp_all add: toLowerCase_def toLowerChar_def)

lemma mset_insertSorted: "mset (insertSorted cmp x xs) = add_mset x (mset xs)"
  by (induction xs) simp_all

lemma mset_arraySort: "mset (arraySort cmp xs) = mset xs"
  unfolding arraySort_def by (induction xs) (simp_all add: mset_insertSorted)

lemma set_arraySort: "set (arraySort cmp xs) = set xs"
  using mset_arraySort [of cmp xs] by (metis set_mset_mset)

lemma sorted_insertSorted_on:
  assumes total: "\<And>a b. a \<in> S \<Longrightarrow> b \<in> S \<Longrightarrow> cmp a b \<le> 0 \<or> cmp b a \<le> 0"
    and trans: "\<And>a b c. a \<in> S \<Longrightarrow> b \<in> S \<Longrightarrow> c \<in> S \<Longrightarrow> cmp a b \<le> 0 \<Longrightarrow> cmp b c \<le> 0
                  \<Longrightarrow> cmp a c \<le> 0"
    and x: "x \<in> S"
    and xs: "set xs \<subseteq> S"
    and sorted: "sorted_wrt (\<lambda>a b. cmp a b \<le> 0) xs"
  shows "sorted_wrt (\<lambda>a b. cmp a b \<le> 0) (insertSorted cmp x xs)"
  using xs sorted
proof (induction xs)
  case Nil
  then show ?case by simp
next
  case (Cons y ys)
  from Cons.prems have y: "y \<in> S" and ys: "set ys \<subseteq> S" by simp_all
  show ?case
  proof (cases "cmp x y \<le> 0")
    case True
    have "cmp x z \<le> 0" if "z \<in> set ys" for z
    proof -
      from that Cons.prems have "cmp y z \<le> 0" by simp
      moreover from that ys have "z \<in> S" by blast
      ultimately show ?thesis using trans [OF x y _ True] by blast
    qed
    with True Cons.prems show ?thesis by simp
  next
    case False
    then have yx: "cmp y x \<le> 0" using total [OF x y] by simp
    have "set (insertSorted cmp x ys) = insert x (set ys)"
      using mset_insertSorted [of cmp x ys] by (metis set_mset_add_mset_insert set_mset_mset)
    moreover from Cons.prems ys have "sorted_wrt (\<lambda>a b. cmp a b \<le> 0) (insertSorted cmp x ys)"
      by (simp add: Cons.IH)
    ultimately show ?thesis using False yx Cons.prems by simp
  qed
qed

lemma sorted_arraySort_on:
  assumes total: "\<And>a b. a \<in> S \<Longrightarrow> b \<in> S \<Longrightarrow> cmp a b \<le> 0 \<or> cmp b a \<le> 0"
    and trans: "\<And>a b c. a \<in> S \<Longrightarrow> b \<in> S \<Longrightarrow> c \<in> S \<Longrightarrow> cmp a b \<le> 0 \<Longrightarrow> cmp b c \<le> 0
                  \<Longrightarrow> cmp a c \<le> 0"
    and xs: "set xs \<subseteq> S"
  shows "sorted_wrt (\<lambda>a b. cmp a b \<le> 0) (arraySort cmp xs)"
  using xs
proof (induction xs)
  case Nil
  show ?case by (simp add: arraySort_def)
next
  case (Cons x xs)
  have step: "arraySort cmp (x # xs) = insertSorted cmp x (arraySort cmp xs)"
    by (simp add: arraySort_def)
  from Cons.prems have "x \<in> S" and "set (arraySort cmp xs) \<subseteq> S"
    by (simp_all add: set_arraySort)
  moreover from Cons have "sorted_wrt (\<lambda>a b. cmp a b \<le> 0) (arraySort cmp xs)"
    by simp
  ultimately have x: "x \<in> S" and rest: "set (arraySort cmp xs) \<subseteq> S"
    and srt: "sorted_wrt (\<lambda>a b. cmp a b \<le> 0) (arraySort cmp xs)"
    by blast+
  show ?case
    unfolding step
  proof (rule sorted_insertSorted_on [where S = S])
    show "cmp a b \<le> 0 \<or> cmp b a \<le> 0" if "a \<in> S" "b \<in> S" for a b
      using that by (rule total)
    show "cmp a c \<le> 0" if "a \<in> S" "b \<in> S" "c \<in> S" "cmp a b \<le> 0" "cmp b c \<le> 0" for a b c
      using that by (rule trans)
  qed (fact x rest srt)+
qed

text \<open>
  Elements that compare equal keep the order they had before sorting: the order that
  \<open>arraySort\<close> computes is the stable one.
\<close>

lemma filter_insertSorted:
  assumes tr: "\<And>a b c. cmp a b \<le> 0 \<Longrightarrow> cmp b c \<le> 0 \<Longrightarrow> cmp a c \<le> 0"
  shows "filter (\<lambda>y. cmp x y \<le> 0 \<and> cmp y x \<le> 0) (insertSorted cmp a ys) =
           (if cmp x a \<le> 0 \<and> cmp a x \<le> 0
            then a # filter (\<lambda>y. cmp x y \<le> 0 \<and> cmp y x \<le> 0) ys
            else filter (\<lambda>y. cmp x y \<le> 0 \<and> cmp y x \<le> 0) ys)"
proof (induction ys)
  case Nil
  show ?case by simp
next
  case (Cons y ys)
  show ?case
  proof (cases "cmp a y \<le> 0")
    case True
    then show ?thesis by simp
  next
    case False
    have "\<not> (cmp x y \<le> 0 \<and> cmp y x \<le> 0)" if "cmp x a \<le> 0" "cmp a x \<le> 0"
      using False that tr [of a x y] by blast
    with False Cons.IH show ?thesis by auto
  qed
qed

lemma arraySort_stable:
  assumes "consistentCompare cmp"
  shows "filter (\<lambda>y. cmp x y \<le> 0 \<and> cmp y x \<le> 0) (arraySort cmp xs) =
         filter (\<lambda>y. cmp x y \<le> 0 \<and> cmp y x \<le> 0) xs"
proof -
  have tr: "cmp a c \<le> 0" if "cmp a b \<le> 0" "cmp b c \<le> 0" for a b c
  proof -
    from assms have "\<forall>a b c. cmp a b \<le> 0 \<and> cmp b c \<le> 0 \<longrightarrow> cmp a c \<le> 0"
      unfolding consistentCompare_def by (rule conjunct2)
    then have "cmp a b \<le> 0 \<and> cmp b c \<le> 0 \<longrightarrow> cmp a c \<le> 0" by blast
    with that show ?thesis by blast
  qed
  show ?thesis
    unfolding arraySort_def
    by (induction xs) (simp_all add: filter_insertSorted [of cmp, OF tr])
qed

lemma codeUnitCompare_lexordp:
  "codeUnitCompare a b \<le> 0 \<longleftrightarrow> lexordp_eq (map of_char a) (map of_char b :: nat list)"
  by (induction a b rule: codeUnitCompare.induct) auto

lemma codeUnitCompare_total: "codeUnitCompare a b \<le> 0 \<or> codeUnitCompare b a \<le> 0"
  unfolding codeUnitCompare_lexordp by (rule lexordp_eq_linear)

lemma codeUnitCompare_trans:
  "codeUnitCompare a b \<le> 0 \<Longrightarrow> codeUnitCompare b c \<le> 0 \<Longrightarrow> codeUnitCompare a c \<le> 0"
  unfolding codeUnitCompare_lexordp by (rule lexordp_eq_trans)

lemma codeUnitCompare_consistent: "consistentCompare codeUnitCompare"
  unfolding consistentCompare_def
proof (intro conjI allI impI)
  fix a b
  show "codeUnitCompare a b \<le> 0 \<or> codeUnitCompare b a \<le> 0"
    by (rule codeUnitCompare_total)
next
  fix a b c
  assume "codeUnitCompare a b \<le> 0 \<and> codeUnitCompare b c \<le> 0"
  then show "codeUnitCompare a c \<le> 0"
    using codeUnitCompare_trans [of a b c] by blast
qed

subsection \<open>Filtering\<close>

lemma trialMatches_facetPredicate:
  "trialMatches q sp ss em io t = facetPredicate q sp ss em io t"
  unfolding trialMatches_def facetPredicate_def containsIgnoreCase_def Let_def
    stringIncludes_sublist toLowerCase_literals orZero_def arraySome_iff arrayIncludes_iff
  by auto

text \<open>
  C8. Whatever the sort settings, the derived view holds exactly the trials of the
  collection that satisfy all five criteria, each as often as the collection holds it.
\<close>

theorem filtered_trials_exactly_the_matching:
  "mset (filteredTrials getTime lc ts q sb so sp ss em io) =
     filter_mset (facetPredicate q sp ss em io) (mset ts) \<and>
   set (filteredTrials getTime lc ts q sb so sp ss em io) =
     {t \<in> set ts. facetPredicate q sp ss em io t}"
proof -
  have eq: "trialMatches q sp ss em io = facetPredicate q sp ss em io"
    by (rule ext) (rule trialMatches_facetPredicate)
  show ?thesis
    by (simp add: filteredTrials_def mset_arraySort set_arraySort eq)
qed

theorem filtered_trials_exactly_the_matching_witness:
  "set (filteredTrials isoDateTime codeUnitCompare [trialA, trialB, trialC] ''NCT'' byDate
          relevance [] [] 100 True) =
     {t \<in> set [trialA, trialB, trialC]. facetPredicate ''NCT'' [] [] 100 True t} \<and>
   filteredTrials isoDateTime codeUnitCompare [trialA, trialB, trialC] ''NCT'' byDate
          relevance [] [] 100 True = [trialA] \<and>
   filteredTrials isoDateTime codeUnitCompare [trialA, trialB, trialC] ''NCT'' byDate
          relevance [] [] 0 True = [trialA, trialC] \<and>
   filteredTrials isoDateTime codeUnitCompare [trialA, trialB, trialC] ''NCT'' byDate
          relevance [] [] 100 False = [trialA]"
proof -
  have a: "filteredTrials isoDateTime codeUnitCompare [trialA, trialB, trialC] ''NCT'' byDate
          relevance [] [] 100 True = [trialA]"
    by code_simp
  have b: "filteredTrials isoDateTime codeUnitCompare [trialA, trialB, trialC] ''NCT'' byDate
          relevance [] [] 0 True = [trialA, trialC]"
    by code_simp
  have c: "filteredTrials isoDateTime codeUnitCompare [trialA, trialB, trialC] ''NCT'' byDate
          relevance [] [] 100 False = [trialA]"
    by code_simp
  from filtered_trials_exactly_the_matching [of isoDateTime codeUnitCompare
      "[trialA, trialB, trialC]" "''NCT''" byDate relevance "[]" "[]" 100 True]
  have "set (filteredTrials isoDateTime codeUnitCompare [trialA, trialB, trialC] ''NCT'' byDate
          relevance [] [] 100 True) =
     {t \<in> set [trialA, trialB, trialC]. facetPredicate ''NCT'' [] [] 100 True t}"
    by (rule conjunct2)
  with a b c show ?thesis by blast
qed

subsection \<open>Ordering\<close>

lemma sortCompare_total:
  assumes total: "\<And>a b. lc a b \<le> 0 \<or> lc b a \<le> 0"
  shows "sortCompare (compareTrials getTime lc so sb) a b \<le> 0 \<or>
         sortCompare (compareTrials getTime lc so sb) b a \<le> 0"
  using total [of "firstPhase b" "firstPhase a"] total [of "title a" "title b"]
  by (auto simp: sortCompare_def compareTrials_def minusNumber_def split: option.splits)

lemma sortCompare_trans:
  assumes trans: "\<And>a b c. lc a b \<le> 0 \<Longrightarrow> lc b c \<le> 0 \<Longrightarrow> lc a c \<le> 0"
    and a: "so = newest \<and> sb = byDate \<longrightarrow> parseable getTime a"
    and b: "so = newest \<and> sb = byDate \<longrightarrow> parseable getTime b"
    and c: "so = newest \<and> sb = byDate \<longrightarrow> parseable getTime c"
    and ab: "sortCompare (compareTrials getTime lc so sb) a b \<le> 0"
    and bc: "sortCompare (compareTrials getTime lc so sb) b c \<le> 0"
  shows "sortCompare (compareTrials getTime lc so sb) a c \<le> 0"
proof (cases "so = relevance")
  case True
  with ab bc show ?thesis by (simp add: sortCompare_def compareTrials_def)
next
  case notRel: False
  then have newest: "so = newest" by (cases so) simp_all
  show ?thesis
  proof (cases sb)
    case byDate
    with newest a b c obtain x y z where
      "startTime getTime a = Some x" "startTime getTime b = Some y" "startTime getTime c = Some z"
      by (auto simp: parseable_def)
    with ab bc notRel byDate show ?thesis
      by (simp add: sortCompare_def compareTrials_def minusNumber_def)
  next
    case byPhase
    with ab bc notRel trans [of "firstPhase c" "firstPhase b" "firstPhase a"] show ?thesis
      by (simp add: sortCompare_def compareTrials_def)
  next
    case byTitle
    with ab bc notRel trans [of "title a" "title b" "title c"] show ?thesis
      by (simp add: sortCompare_def compareTrials_def)
  qed
qed

lemma filteredTrials_sorted:
  assumes total: "\<And>a b. lc a b \<le> 0 \<or> lc b a \<le> 0"
    and trans: "\<And>a b c. lc a b \<le> 0 \<Longrightarrow> lc b c \<le> 0 \<Longrightarrow> lc a c \<le> 0"
    and dates: "so = newest \<and> sb = byDate \<longrightarrow>
                  (\<forall>t \<in> set ts. trialMatches q sp ss em io t \<longrightarrow> parseable getTime t)"
  shows "sorted_wrt (\<lambda>a b. sortCompare (compareTrials getTime lc so sb) a b \<le> 0)
           (filteredTrials getTime lc ts q sb so sp ss em io)"
proof -
  let ?S = "{t. so = newest \<and> sb = byDate \<longrightarrow> parseable getTime t}"
  have t: "sortCompare (compareTrials getTime lc so sb) a b \<le> 0 \<or>
           sortCompare (compareTrials getTime lc so sb) b a \<le> 0" if "a \<in> ?S" "b \<in> ?S" for a b
    by (rule sortCompare_total [OF total])
  have tr: "sortCompare (compareTrials getTime lc so sb) a c \<le> 0"
    if "a \<in> ?S" "b \<in> ?S" "c \<in> ?S"
      "sortCompare (compareTrials getTime lc so sb) a b \<le> 0"
      "sortCompare (compareTrials getTime lc so sb) b c \<le> 0" for a b c
  proof (rule sortCompare_trans [where lc = lc and a = a and b = b and c = c])
    show "lc u w \<le> 0" if "lc u v \<le> 0" "lc v w \<le> 0" for u v w
      using that by (rule trans)
  qed (use that in simp_all)
  have sub: "set (filter (trialMatches q sp ss em io) ts) \<subseteq> ?S"
    using dates by auto
  show ?thesis
    unfolding filteredTrials_def Let_def
  proof (rule sorted_arraySort_on
          [where cmp = "sortCompare (compareTrials getTime lc so sb)" and S = ?S])
    show "sortCompare (compareTrials getTime lc so sb) a b \<le> 0 \<or>
          sortCompare (compareTrials getTime lc so sb) b a \<le> 0" if "a \<in> ?S" "b \<in> ?S" for a b
      using that by (rule t)
    show "sortCompare (compareTrials getTime lc so sb) a c \<le> 0"
      if "a \<in> ?S" "b \<in> ?S" "c \<in> ?S"
        "sortCompare (compareTrials getTime lc so sb) a b \<le> 0"
        "sortCompare (compareTrials getTime lc so sb) b c \<le> 0" for a b c
      using that by (rule tr)
  qed (fact sub)
qed

lemma unparseable_date_not_consistent:
  "startDate trialE = Some ''TBD'' \<and> isoDateTime ''TBD'' = None \<and>
   \<not> consistentCompare (sortCompare (compareTrials isoDateTime codeUnitCompare newest byDate))"
proof -
  let ?cmp = "sortCompare (compareTrials isoDateTime codeUnitCompare newest byDate)"
  have ab: "?cmp trialA trialE \<le> 0" by code_simp
  have bc: "?cmp trialE trialB \<le> 0" by code_simp
  have ac: "\<not> ?cmp trialA trialB \<le> 0" by code_simp
  have "\<not> consistentCompare ?cmp"
  proof
    assume "consistentCompare ?cmp"
    then have "\<forall>a b c. ?cmp a b \<le> 0 \<and> ?cmp b c \<le> 0 \<longrightarrow> ?cmp a c \<le> 0"
      unfolding consistentCompare_def by (rule conjunct2)
    then have "?cmp trialA trialE \<le> 0 \<and> ?cmp trialE trialB \<le> 0 \<longrightarrow> ?cmp trialA trialB \<le> 0"
      by blast
    with ab bc ac show False by blast
  qed
  moreover have "startDate trialE = Some ''TBD''" by code_simp
  moreover have "isoDateTime ''TBD'' = None" by code_simp
  ultimately show ?thesis by blast
qed

text \<open>
  C9 (amended). Let \<^verbatim>\<open>localeCompare\<close> be a consistent comparison function. The derived
  view is a rearrangement of the trials that pass the filter, ordered as follows. Under
  \<open>relevance\<close>: by descending score, a missing score counting as 0. Under \<open>newest\<close> with
  key date, when the start date of every trial that passes the filter is parseable: by
  descending start time, a missing date counting as time 0, the epoch; so every trial
  placed after a trial without a date has a start time of at most 0, and the trial
  without a date comes after all trials dated later than the epoch, not always last.
  With key phase: by descending first phase code under \<^verbatim>\<open>localeCompare\<close>, a missing code
  counting as the empty string. With key title: by ascending title under
  \<^verbatim>\<open>localeCompare\<close>. Nothing is said of the order under key date when a start date cannot
  be parsed: the comparison function is then not consistent
  (\<open>unparseable_date_not_consistent\<close>).
\<close>

theorem sort_policy:
  assumes lc: "consistentCompare lc"
  shows
    "mset (filteredTrials getTime lc ts q sb so sp ss em io) =
       mset (filter (trialMatches q sp ss em io) ts) \<and>
     (so = relevance \<longrightarrow>
        sorted_wrt (\<lambda>a b. orZero (relevanceScore a) \<ge> orZero (relevanceScore b))
          (filteredTrials getTime lc ts q sb so sp ss em io)) \<and>
     (so = newest \<and> sb = byDate \<and>
      (\<forall>t \<in> set ts. trialMatches q sp ss em io t \<longrightarrow> parseable getTime t) \<longrightarrow>
        sorted_wrt (\<lambda>a b. \<exists>x y. startTime getTime a = Some x \<and> startTime getTime b = Some y \<and>
                             y \<le> x)
          (filteredTrials getTime lc ts q sb so sp ss em io) \<and>
        (\<forall>i j. i < j \<and> j < length (filteredTrials getTime lc ts q sb so sp ss em io) \<and>
               startDate (filteredTrials getTime lc ts q sb so sp ss em io ! i) = None \<longrightarrow>
               (\<exists>y. startTime getTime (filteredTrials getTime lc ts q sb so sp ss em io ! j)
                       = Some y \<and> y \<le> 0))) \<and>
     (so = newest \<and> sb = byPhase \<longrightarrow>
        sorted_wrt (\<lambda>a b. lc (firstPhase b) (firstPhase a) \<le> 0)
          (filteredTrials getTime lc ts q sb so sp ss em io)) \<and>
     (so = newest \<and> sb = byTitle \<longrightarrow>
        sorted_wrt (\<lambda>a b. lc (title a) (title b) \<le> 0)
          (filteredTrials getTime lc ts q sb so sp ss em io))"
proof -
  let ?R = "filteredTrials getTime lc ts q sb so sp ss em io"
  let ?cmp = "sortCompare (compareTrials getTime lc so sb)"
  have total: "lc a b \<le> 0 \<or> lc b a \<le> 0" for a b
  proof -
    from lc have "\<forall>a b. lc a b \<le> 0 \<or> lc b a \<le> 0"
      unfolding consistentCompare_def by (rule conjunct1)
    then show ?thesis by blast
  qed
  have trans: "lc a c \<le> 0" if "lc a b \<le> 0" "lc b c \<le> 0" for a b c
  proof -
    from lc have "\<forall>a b c. lc a b \<le> 0 \<and> lc b c \<le> 0 \<longrightarrow> lc a c \<le> 0"
      unfolding consistentCompare_def by (rule conjunct2)
    then have "lc a b \<le> 0 \<and> lc b c \<le> 0 \<longrightarrow> lc a c \<le> 0"
      by blast
    with that show ?thesis by blast
  qed
  have perm: "mset ?R = mset (filter (trialMatches q sp ss em io) ts)"
    by (simp add: filteredTrials_def mset_arraySort)
  have members: "set ?R = {t \<in> set ts. trialMatches q sp ss em io t}"
    by (simp add: filteredTrials_def set_arraySort)
  have rel: "sorted_wrt (\<lambda>a b. orZero (relevanceScore a) \<ge> orZero (relevanceScore b)) ?R"
    if "so = relevance"
  proof -
    have "sorted_wrt (\<lambda>a b. ?cmp a b \<le> 0) ?R"
    proof (rule filteredTrials_sorted [where lc = lc])
      show "lc a b \<le> 0 \<or> lc b a \<le> 0" for a b by (rule total)
      show "lc a c \<le> 0" if "lc a b \<le> 0" "lc b c \<le> 0" for a b c using that by (rule trans)
    qed (use that in simp)
    with that show ?thesis by (simp add: sortCompare_def compareTrials_def)
  qed
  have dat: "sorted_wrt (\<lambda>a b. \<exists>x y. startTime getTime a = Some x \<and>
                startTime getTime b = Some y \<and> y \<le> x) ?R"
    if mode: "so = newest" "sb = byDate"
      and parse: "\<forall>t \<in> set ts. trialMatches q sp ss em io t \<longrightarrow> parseable getTime t"
  proof -
    have srt: "sorted_wrt (\<lambda>a b. ?cmp a b \<le> 0) ?R"
    proof (rule filteredTrials_sorted [where lc = lc])
      show "lc a b \<le> 0 \<or> lc b a \<le> 0" for a b by (rule total)
      show "lc a c \<le> 0" if "lc a b \<le> 0" "lc b c \<le> 0" for a b c using that by (rule trans)
    qed (use parse in simp)
    have "\<exists>x y. startTime getTime a = Some x \<and> startTime getTime b = Some y \<and> y \<le> x"
      if "a \<in> set ?R" "b \<in> set ?R" "?cmp a b \<le> 0" for a b
    proof -
      from that(1,2) members parse have "parseable getTime a" "parseable getTime b"
        by auto
      then obtain x y where
        xy: "startTime getTime a = Some x" "startTime getTime b = Some y"
        unfolding parseable_def by blast
      with that(3) mode have "y \<le> x"
        by (simp add: sortCompare_def compareTrials_def minusNumber_def)
      with xy show ?thesis by blast
    qed
    then show ?thesis by (rule sorted_wrt_mono_rel [OF _ srt])
  qed
  have missing: "\<exists>y. startTime getTime (?R ! j) = Some y \<and> y \<le> 0"
    if mode: "so = newest" "sb = byDate"
      and parse: "\<forall>t \<in> set ts. trialMatches q sp ss em io t \<longrightarrow> parseable getTime t"
      and ij: "i < j" "j < length ?R" "startDate (?R ! i) = None" for i j
  proof -
    from dat [OF mode parse] ij(1,2)
    have "\<exists>x y. startTime getTime (?R ! i) = Some x \<and> startTime getTime (?R ! j) = Some y \<and>
             y \<le> x"
      unfolding sorted_wrt_iff_nth_less by blast
    then obtain x y where "startTime getTime (?R ! i) = Some x"
      "startTime getTime (?R ! j) = Some y" "y \<le> x"
      by blast
    with ij(3) show ?thesis by (simp add: startTime_def)
  qed
  have pha: "sorted_wrt (\<lambda>a b. lc (firstPhase b) (firstPhase a) \<le> 0) ?R"
    if "so = newest" "sb = byPhase"
  proof -
    have "sorted_wrt (\<lambda>a b. ?cmp a b \<le> 0) ?R"
    proof (rule filteredTrials_sorted [where lc = lc])
      show "lc a b \<le> 0 \<or> lc b a \<le> 0" for a b by (rule total)
      show "lc a c \<le> 0" if "lc a b \<le> 0" "lc b c \<le> 0" for a b c using that by (rule trans)
    qed (use that in simp)
    with that show ?thesis by (simp add: sortCompare_def compareTrials_def)
  qed
  have tit: "sorted_wrt (\<lambda>a b. lc (title a) (title b) \<le> 0) ?R"
    if "so = newest" "sb = byTitle"
  proof -
    have "sorted_wrt (\<lambda>a b. ?cmp a b \<le> 0) ?R"
    proof (rule filteredTrials_sorted [where lc = lc])
      show "lc a b \<le> 0 \<or> lc b a \<le> 0" for a b by (rule total)
      show "lc a c \<le> 0" if "lc a b \<le> 0" "lc b c \<le> 0" for a b c using that by (rule trans)
    qed (use that in simp)
    with that show ?thesis by (simp add: sortCompare_def compareTrials_def)
  qed
  from perm rel dat missing pha tit show ?thesis by blast
qed

theorem sort_policy_witness:
  "consistentCompare codeUnitCompare \<and>
   list_all (parseable isoDateTime) [trialA, trialB] \<and>
   filteredTrials isoDateTime codeUnitCompare [trialA, trialB] [] byDate relevance [] [] 0 False
     = [trialA, trialB] \<and>
   filteredTrials isoDateTime codeUnitCompare [trialA, trialB] [] byDate newest [] [] 0 False
     = [trialB, trialA] \<and>
   sorted_wrt (\<lambda>a b. \<exists>x y. startTime isoDateTime a = Some x \<and> startTime isoDateTime b = Some y \<and>
                        y \<le> x)
     (filteredTrials isoDateTime codeUnitCompare [trialA, trialB] [] byDate newest [] [] 0 False) \<and>
   filteredTrials isoDateTime codeUnitCompare [trialA, trialB, trialC, trialD] [] byPhase newest
       [] [] 0 False
     = [trialD, trialB, trialA, trialC] \<and>
   filteredTrials isoDateTime codeUnitCompare [trialA, trialB, trialC, trialD] [] byTitle newest
       [] [] 0 False
     = [trialA, trialC, trialD, trialB]"
proof -
  have ps: "list_all (parseable isoDateTime) [trialA, trialB]"
    by code_simp
  then have parse: "\<forall>t \<in> set [trialA, trialB]. trialMatches [] [] [] 0 False t \<longrightarrow>
      parseable isoDateTime t"
    by simp
  have r: "filteredTrials isoDateTime codeUnitCompare [trialA, trialB] [] byDate relevance
      [] [] 0 False = [trialA, trialB]"
    by code_simp
  have d: "filteredTrials isoDateTime codeUnitCompare [trialA, trialB] [] byDate newest
      [] [] 0 False = [trialB, trialA]"
    by code_simp
  have p: "filteredTrials isoDateTime codeUnitCompare [trialA, trialB, trialC, trialD] []
      byPhase newest [] [] 0 False = [trialD, trialB, trialA, trialC]"
    by code_simp
  have t: "filteredTrials isoDateTime codeUnitCompare [trialA, trialB, trialC, trialD] []
      byTitle newest [] [] 0 False = [trialA, trialC, trialD, trialB]"
    by code_simp
  from sort_policy [OF codeUnitCompare_consistent, where getTime = isoDateTime
      and ts = "[trialA, trialB]" and q = "[]" and sb = byDate and so = newest
      and sp = "[]" and ss = "[]" and em = 0 and io = False] parse
  have "sorted_wrt (\<lambda>a b. \<exists>x y. startTime isoDateTime a = Some x \<and>
            startTime isoDateTime b = Some y \<and> y \<le> x)
     (filteredTrials isoDateTime codeUnitCompare [trialA, trialB] [] byDate newest [] [] 0 False)"
    by blast
  with codeUnitCompare_consistent ps r d p t show ?thesis by blast
qed

theorem missing_date_not_last_counterexample:
  "startDate trialC = None \<and>
   startDate trialD = Some ''1960-01-01'' \<and>
   isoDateTime ''1960-01-01'' = Some (- 315619200000) \<and>
   filteredTrials isoDateTime codeUnitCompare [trialD, trialC] [] byDate newest [] [] 0 False
     = [trialC, trialD]"
  by code_simp

subsection \<open>Growing the phase selection\<close>

text \<open>
  C10 (amended). Adding a phase code to an empty selection can only remove trials from
  the derived view. Adding a phase code to a selection that is not empty can only add
  trials to it: a trial passes when one of its phases is among the selected ones.
  \<^verbatim>\<open>toggleLocalPhase\<close> extends the selection in this way when the code is not yet in it.
\<close>

theorem phase_selection_growth:
  "(\<not> arrayIncludes sp p \<longrightarrow> toggleLocalPhase p sp = sp @ [p]) \<and>
   (sp = [] \<longrightarrow>
      set (filteredTrials getTime lc ts q sb so (sp @ [p]) ss em io) \<subseteq>
      set (filteredTrials getTime lc ts q sb so sp ss em io)) \<and>
   (sp \<noteq> [] \<longrightarrow>
      set (filteredTrials getTime lc ts q sb so sp ss em io) \<subseteq>
      set (filteredTrials getTime lc ts q sb so (sp @ [p]) ss em io))"
  by (auto simp: filteredTrials_def set_arraySort trialMatches_def arraySome_iff
        arrayIncludes_iff toggleLocalPhase_def)

theorem phase_selection_growth_witness:
  "toggleLocalPhase ''PHASE2'' [''PHASE1''] = [''PHASE1'', ''PHASE2''] \<and>
   set (filteredTrials isoDateTime codeUnitCompare [trialA, trialB] [] byDate relevance
          [''PHASE1''] [] 0 False) \<subseteq>
   set (filteredTrials isoDateTime codeUnitCompare [trialA, trialB] [] byDate relevance
          [] [] 0 False) \<and>
   set (filteredTrials isoDateTime codeUnitCompare [trialA, trialB] [] byDate relevance
          [''PHASE1''] [] 0 False) \<subseteq>
   set (filteredTrials isoDateTime codeUnitCompare [trialA, trialB] [] byDate relevance
          [''PHASE1'', ''PHASE2''] [] 0 False)"
  using phase_selection_growth [of "[]" "''PHASE1''" isoDateTime codeUnitCompare
      "[trialA, trialB]" "[]" byDate relevance "[]" 0 False]
    phase_selection_growth [of "[''PHASE1'']" "''PHASE2''" isoDateTime codeUnitCompare
      "[trialA, trialB]" "[]" byDate relevance "[]" 0 False]
  by simp

theorem phase_selection_growth_counterexample:
  "filteredTrials isoDateTime codeUnitCompare [trialA, trialB] [] byDate relevance
          [''PHASE1''] [] 0 False = [trialA] \<and>
   filteredTrials isoDateTime codeUnitCompare [trialA, trialB] [] byDate relevance
          [''PHASE1'', ''PHASE2''] [] 0 False = [trialA, trialB] \<and>
   \<not> set (filteredTrials isoDateTime codeUnitCompare [trialA, trialB] [] byDate relevance
          [''PHASE1'', ''PHASE2''] [] 0 False) \<subseteq>
     set (filteredTrials isoDateTime codeUnitCompare [trialA, trialB] [] byDate relevance
          [''PHASE1''] [] 0 False)"
  by code_simp

end
